theory Spec2Isabelle
  imports Main "HOL-Library.AList"
begin

section \<open>Errors\<close>

text \<open>
  A JavaScript exception is a value: \<open>TypeError\<close> is what the engine raises when a
  property of \<open>undefined\<close> or \<open>null\<close> is read or when a value that is not a function is
  called; \<open>Thrown s\<close> is a \<open>throw\<close> statement of the program with the string \<open>s\<close>;
  \<open>Unmodelled\<close> marks an input outside the fragment of the engine written out below.
\<close>

datatype err = TypeError | Thrown string | Unmodelled

section \<open>The replacer module\<close>

subsection \<open>Syntax nodes\<close>

text \<open>
  A syntax node is a JavaScript object. The fields are the properties the module reads
  or writes (\<open>type\<close>, \<open>operator\<close>, \<open>argument\<close>, \<open>left\<close>, \<open>right\<close>, \<open>callee\<close>,
  \<open>arguments\<close>, \<open>name\<close>) and \<open>prefix\<close>, which tells \<open>++x\<close> from \<open>x++\<close>. A property
  that is absent reads as \<open>undefined\<close>: \<open>None\<close>. An element of \<open>arguments\<close> may be
  \<open>undefined\<close> as well, since \<open>[node.argument]\<close> is built whatever \<open>node.argument\<close> is.
\<close>

datatype node = Node
  (n_type: string)
  (n_operator: "string option")
  (n_prefix: "bool option")
  (n_argument: "node option")
  (n_left: "node option")
  (n_right: "node option")
  (n_callee: "node option")
  (n_arguments: "node option list option")
  (n_name: "string option")

definition Syntax_Identifier :: string where
  "Syntax_Identifier = ''Identifier''"

definition Syntax_CallExpression :: string where
  "Syntax_CallExpression = ''CallExpression''"

definition Syntax_UnaryExpression :: string where
  "Syntax_UnaryExpression = ''UnaryExpression''"

definition Syntax_BinaryExpression :: string where
  "Syntax_BinaryExpression = ''BinaryExpression''"

definition Syntax_LogicalExpression :: string where
  "Syntax_LogicalExpression = ''LogicalExpression''"

definition Syntax_UpdateExpression :: string where
  "Syntax_UpdateExpression = ''UpdateExpression''"

text \<open>Assignments to a property of a node: \<open>node.type = t\<close> and the like.\<close>

fun set_type :: "string \<Rightarrow> node \<Rightarrow> node" where
  "set_type t (Node _ op p a l r c args nm) = Node t op p a l r c args nm"

fun set_callee :: "node \<Rightarrow> node \<Rightarrow> node" where
  "set_callee c (Node t op p a l r _ args nm) = Node t op p a l r (Some c) args nm"

fun set_arguments :: "node option list \<Rightarrow> node \<Rightarrow> node" where
  "set_arguments args (Node t op p a l r c _ nm) = Node t op p a l r c (Some args) nm"

fun set_name :: "string \<Rightarrow> node \<Rightarrow> node" where
  "set_name nm (Node t op p a l r c args _) = Node t op p a l r c args (Some nm)"

text \<open>The object literal \<open>{type: Syntax.Identifier, name: n}\<close>.\<close>

definition identifier_node :: "string \<Rightarrow> node" where
  "identifier_node n = Node Syntax_Identifier None None None None None None None (Some n)"

subsection \<open>The name tables\<close>

text \<open>
  An object literal is an association list in the order of its keys, which is the order
  \<open>for (let name in table)\<close> visits them.
\<close>

definition unaryOperatorNames :: "(string \<times> string) list" where
  "unaryOperatorNames =
    [(''~'', ''__bitwise_not__''),
     (''!'', ''__logical_not__''),
     (''typeof'', ''__typeof__''),
     (''++'', ''__increment__''),
     (''--'', ''__decrement__'')]"

definition binaryOperatorNames :: "(string \<times> string) list" where
  "binaryOperatorNames =
    [(''=='', ''__double_equal__''),
     (''==='', ''__triple_equal__''),
     (''!='', ''__double_inequal__''),
     (''!=='', ''__triple_inequal__''),
     (''+'', ''__plus__''),
     (''-'', ''__minus__''),
     (''*'', ''__multiply__''),
     (''/'', ''__divide__''),
     (''%'', ''__modulus__''),
     (''&'', ''__bitwise_and__''),
     (''|'', ''__bitwise_or__''),
     (''^'', ''__xor__''),
     (''>>'', ''__shift_right__''),
     (''<<'', ''__shift_left__''),
     (''&&'', ''__logical_and__''),
     (''||'', ''__logical_or__''),
     (''>'', ''__greater__''),
     (''<'', ''__lesser__''),
     (''>='', ''__greater_equal__''),
     (''<='', ''__lesser_equal__'')]"

definition functionNames :: "(string \<times> string) list" where
  "functionNames = [(''eval'', ''__eval__'')]"

text \<open>
  \<open>copyObject(src, dst)\<close>: \<open>dst[pr] = src[pr]\<close> for every key of \<open>src\<close>. Assigning to a
  key that exists keeps its place, a new key goes last.
\<close>

definition copyObject :: "(string \<times> string) list \<Rightarrow> (string \<times> string) list \<Rightarrow> (string \<times> string) list" where
  "copyObject src dst = fold (\<lambda>(pr, v) d. AList.update pr v d) src dst"

definition replacerNames :: "(string \<times> string) list" where
  "replacerNames =
    copyObject binaryOperatorNames (copyObject unaryOperatorNames (copyObject functionNames []))"

text \<open>\<open>_.has(table, op)\<close>: the table has \<open>op\<close> as a key of its own.\<close>

definition has :: "(string \<times> string) list \<Rightarrow> string \<Rightarrow> bool" where
  "has table k = (map_of table k \<noteq> None)"

definition isUnaryOperator :: "string \<Rightarrow> bool" where
  "isUnaryOperator op = has unaryOperatorNames op"

definition isBinaryOperator :: "string \<Rightarrow> bool" where
  "isBinaryOperator op = has binaryOperatorNames op"

definition isFunction :: "string \<Rightarrow> bool" where
  "isFunction func = has functionNames func"

subsection \<open>Replacers\<close>

record Replacer =
  predicate :: "node \<Rightarrow> err + bool"
  replace :: "node \<Rightarrow> err + node"

text \<open>
  The predicate of a unary replacer returns at its first \<open>return\<close>; the second one, which
  tests for binary and logical expressions, is never reached.
\<close>

definition UnaryOperatorReplacerFactory :: "string \<Rightarrow> string \<Rightarrow> Replacer" where
  "UnaryOperatorReplacerFactory op opReplacerName =
    \<lparr> predicate = (\<lambda>node.
        Inr ((n_type node = Syntax_UnaryExpression \<or> n_type node = Syntax_UpdateExpression)
             \<and> n_operator node = Some op)),
      replace = (\<lambda>node.
        let node1 = set_type Syntax_CallExpression node;
            node2 = set_callee (identifier_node opReplacerName) node1;
            args = [n_argument node2]
        in Inr (set_arguments args node2)) \<rparr>"

definition BinaryOperatorReplacerFactory :: "string \<Rightarrow> string \<Rightarrow> Replacer" where
  "BinaryOperatorReplacerFactory op opReplacerName =
    \<lparr> predicate = (\<lambda>node.
        Inr ((n_type node = Syntax_BinaryExpression \<or> n_type node = Syntax_LogicalExpression)
             \<and> n_operator node = Some op)),
      replace = (\<lambda>node.
        let node1 = set_type Syntax_CallExpression node;
            node2 = set_callee (identifier_node opReplacerName) node1;
            args = [n_left node2, n_right node2]
        in Inr (set_arguments args node2)) \<rparr>"

text \<open>
  \<open>node.callee.name\<close> raises a TypeError when the node has no \<open>callee\<close>; the test of
  \<open>node.type\<close> comes first and \<open>&&\<close> stops at a false operand.
\<close>

definition FunctionReplacerFactory :: "string \<Rightarrow> string \<Rightarrow> Replacer" where
  "FunctionReplacerFactory func funcReplacerName =
    \<lparr> predicate = (\<lambda>node.
        if n_type node = Syntax_CallExpression
        then (case n_callee node of
                None \<Rightarrow> Inl TypeError
              | Some c \<Rightarrow> Inr (n_name c = Some func))
        else Inr False),
      replace = (\<lambda>node.
        case n_callee node of
          None \<Rightarrow> Inl TypeError
        | Some c \<Rightarrow> Inr (set_callee (set_name funcReplacerName c) node)) \<rparr>"

text \<open>
  \<open>createAllReplacers\<close>: for every type of names, in the order of \<open>nameTypes\<close>, and every
  name of the type, the factory \<open>factories[type]\<close> builds a replacer, which is pushed.
  Calling a factory that is \<open>undefined\<close> would raise a TypeError.
\<close>

definition replacer_nameTypes :: "(string \<times> (string \<times> string) list) list" where
  "replacer_nameTypes =
    [(''unary'', unaryOperatorNames),
     (''binary'', binaryOperatorNames),
     (''function'', functionNames)]"

definition replacer_factories :: "(string \<times> (string \<Rightarrow> string \<Rightarrow> Replacer)) list" where
  "replacer_factories =
    [(''unary'', UnaryOperatorReplacerFactory),
     (''binary'', BinaryOperatorReplacerFactory),
     (''function'', FunctionReplacerFactory)]"

fun push_names ::
  "(string \<Rightarrow> string \<Rightarrow> Replacer) option \<Rightarrow> (string \<times> string) list \<Rightarrow> Replacer list
    \<Rightarrow> err + Replacer list" where
  "push_names factory [] replacers = Inr replacers"
| "push_names factory ((name, repl) # names) replacers =
    (case factory of
       None \<Rightarrow> Inl TypeError
     | Some f \<Rightarrow> push_names factory names (replacers @ [f name repl]))"

fun push_types :: "(string \<times> (string \<times> string) list) list \<Rightarrow> Replacer list \<Rightarrow> err + Replacer list" where
  "push_types [] replacers = Inr replacers"
| "push_types ((type, names) # types) replacers =
    (case push_names (map_of replacer_factories type) names replacers of
       Inl e \<Rightarrow> Inl e
     | Inr replacers' \<Rightarrow> push_types types replacers')"

definition createAllReplacers :: "err + Replacer list" where
  "createAllReplacers = push_types replacer_nameTypes []"

text \<open>\<open>exports.replacers = createAllReplacers()\<close>.\<close>

definition replacers :: "Replacer list" where
  "replacers = (case createAllReplacers of Inr rs \<Rightarrow> rs | Inl _ \<Rightarrow> [])"

text \<open>
  How a replacer is used on a node, after the example in the comment of \<open>Replacer\<close>:
  \<open>if (replacer.predicate(node)) { return replacer.replace(node); }\<close>, for the replacers
  in their order; a node that no predicate matches stays as it is.
\<close>

fun apply_rules :: "Replacer list \<Rightarrow> node \<Rightarrow> err + node" where
  "apply_rules [] node = Inr node"
| "apply_rules (r # rs) node =
    (case predicate r node of
       Inl e \<Rightarrow> Inl e
     | Inr matches \<Rightarrow> if matches then replace r node else apply_rules rs node)"

text \<open>The replacers whose predicate matches a node.\<close>

definition matching_rules :: "node \<Rightarrow> Replacer list" where
  "matching_rules node = filter (\<lambda>r. predicate r node = Inr True) replacers"

section \<open>Values, the engine and the taint substrate\<close>

text \<open>
  The values the mocks are applied to: the primitives, with the numbers restricted to the
  integers, and a tainted value, which pairs a raw value with its provenance name.
\<close>

datatype jsval =
    JUndefined
  | JNull
  | JBool bool
  | JNum int
  | JStr string
  | JWrapped jsval string

text \<open>
  The engine is what runs the code the factories build with \<open>new Function\<close>:
  \<open>unary_op E op x\<close> is the result of \<open>return op x;\<close>, \<open>binary_op E op x y\<close> of
  \<open>return x op y;\<close>, \<open>call_global E f x\<close> of \<open>return f(x)\<close>, and \<open>to_string E v\<close> is the
  text that \<open>v.toString()\<close> gives for a value \<open>v\<close> other than \<open>undefined\<close> and \<open>null\<close>.
  Each of them may raise.
\<close>

record engine =
  unary_op :: "string \<Rightarrow> jsval \<Rightarrow> err + jsval"
  binary_op :: "string \<Rightarrow> jsval \<Rightarrow> jsval \<Rightarrow> err + jsval"
  call_global :: "string \<Rightarrow> jsval \<Rightarrow> err + jsval"
  to_string :: "jsval \<Rightarrow> err + string"

text \<open>
  The module \<open>proxy\<close> is not part of the sources at hand; the mocks use four of its
  functions, which are parameters of the model. \<open>isObjectTainted S v\<close> is the outcome of
  the test \<open>isObjectTainted(v) === true\<close>, and \<open>getTaintedName S v\<close> is the text that
  string concatenation writes for \<open>getTaintedName(v)\<close>.
\<close>

record substrate =
  isObjectTainted :: "jsval \<Rightarrow> bool"
  getWrappedObject :: "jsval \<Rightarrow> jsval"
  getTaintedName :: "jsval \<Rightarrow> string"
  buildProxy :: "jsval \<Rightarrow> string \<Rightarrow> jsval"

text \<open>
  Modelled from the spec: the taint substrate (the module \<open>proxy\<close>, absent from the
  sources). A tainted value pairs a provenance label with its raw value; \<open>isTainted\<close> tells
  such a pair from any other value, \<open>unwrap\<close> gives the raw value, \<open>provenanceName\<close> the
  label and \<open>wrap\<close> builds the pair. The spec gives \<open>provenanceName\<close> for tainted values
  only; here a value that is not tainted has no name, and the concatenation writes
  \<open>undefined\<close> for it.
\<close>

definition spec_substrate :: substrate where
  "spec_substrate =
    \<lparr> isObjectTainted = (\<lambda>v. case v of JWrapped _ _ \<Rightarrow> True | _ \<Rightarrow> False),
      getWrappedObject = (\<lambda>v. case v of JWrapped raw _ \<Rightarrow> raw | _ \<Rightarrow> v),
      getTaintedName = (\<lambda>v. case v of JWrapped _ n \<Rightarrow> n | _ \<Rightarrow> ''undefined''),
      buildProxy = JWrapped \<rparr>"

subsection \<open>A fragment of the engine\<close>

text \<open>
  The results of the native operators on the values the examples below use. Outside
  this fragment the functions return \<open>Inl Unmodelled\<close>, and no statement below is about
  such an input.
\<close>

definition digit_char :: "nat \<Rightarrow> char" where
  "digit_char d = ''0123456789'' ! d"

fun show_nat :: "nat \<Rightarrow> string" where
  "show_nat n = (if n < 10 then [digit_char n] else show_nat (n div 10) @ [digit_char (n mod 10)])"

definition show_int :: "int \<Rightarrow> string" where
  "show_int i = (if i < 0 then ''-'' @ show_nat (nat (- i)) else show_nat (nat i))"

fun is_primitive :: "jsval \<Rightarrow> bool" where
  "is_primitive (JWrapped _ _) = False"
| "is_primitive _ = True"

fun js_unary :: "string \<Rightarrow> jsval \<Rightarrow> err + jsval" where
  "js_unary op (JBool b) = (if op = ''!'' then Inr (JBool (\<not> b)) else Inl Unmodelled)"
| "js_unary op (JNum n) =
    (if op = ''++'' then Inr (JNum (n + 1))
     else if op = ''--'' then Inr (JNum (n - 1))
     else if op = ''!'' then Inr (JBool (n = 0))
     else Inl Unmodelled)"
| "js_unary op _ = Inl Unmodelled"

fun js_binary :: "string \<Rightarrow> jsval \<Rightarrow> jsval \<Rightarrow> err + jsval" where
  "js_binary op (JNum a) (JNum b) =
    (if op = ''+'' then Inr (JNum (a + b))
     else if op = ''-'' then Inr (JNum (a - b))
     else if op = ''=='' \<or> op = ''==='' then Inr (JBool (a = b))
     else if op = ''!='' \<or> op = ''!=='' then Inr (JBool (a \<noteq> b))
     else Inl Unmodelled)"
| "js_binary op JNull (JNum b) = (if op = ''+'' then Inr (JNum b) else Inl Unmodelled)"
| "js_binary op (JNum a) JNull = (if op = ''+'' then Inr (JNum a) else Inl Unmodelled)"
| "js_binary op _ _ = Inl Unmodelled"

fun js_call :: "string \<Rightarrow> jsval \<Rightarrow> err + jsval" where
  "js_call f (JNum n) = (if f = ''eval'' then Inr (JNum n) else Inl Unmodelled)"
| "js_call f (JBool b) = (if f = ''eval'' then Inr (JBool b) else Inl Unmodelled)"
| "js_call f _ = Inl Unmodelled"

fun js_to_string :: "jsval \<Rightarrow> err + string" where
  "js_to_string (JBool b) = Inr (if b then ''true'' else ''false'')"
| "js_to_string (JNum n) = Inr (show_int n)"
| "js_to_string (JStr s) = Inr s"
| "js_to_string _ = Inl Unmodelled"

definition js_engine :: engine where
  "js_engine =
    \<lparr> unary_op = js_unary, binary_op = js_binary, call_global = js_call,
      to_string = js_to_string \<rparr>"

text \<open>
  The native update expression on a variable that holds the number \<open>n\<close>: the value of the
  expression and the value of the variable afterwards. \<open>prefix\<close> tells \<open>++x\<close> from \<open>x++\<close>.
\<close>

definition native_update :: "string \<Rightarrow> bool \<Rightarrow> int \<Rightarrow> int \<times> int" where
  "native_update op prefix n =
    (let n' = (if op = ''++'' then n + 1 else n - 1)
     in (if prefix then n' else n, n'))"

section \<open>The mocks module\<close>

subsection \<open>Function objects and the marker\<close>

text \<open>
  A function is an object: it can be called, and it has properties. A parameter with no
  argument is \<open>undefined\<close>.
\<close>

record jsfun =
  fn_call :: "jsval list \<Rightarrow> err + jsval"
  fn_props :: "string \<Rightarrow> jsval option"

definition arg :: "jsval list \<Rightarrow> nat \<Rightarrow> jsval" where
  "arg args i = (if i < length args then args ! i else JUndefined)"

definition mockFunctionKey :: string where
  "mockFunctionKey = ''__is_mock_function__''"

definition markAsMocked :: "jsfun \<Rightarrow> jsfun" where
  "markAsMocked f = f\<lparr> fn_props := (fn_props f)(mockFunctionKey \<mapsto> JBool True) \<rparr>"

definition isMarkedAsMocked :: "jsfun \<Rightarrow> bool" where
  "isMarkedAsMocked f = (fn_props f mockFunctionKey = Some (JBool True))"

text \<open>
  \<open>v.toString()\<close>: reading a property of \<open>undefined\<close> or \<open>null\<close> raises a TypeError.
\<close>

definition call_toString :: "engine \<Rightarrow> jsval \<Rightarrow> err + string" where
  "call_toString E v =
    (case v of JUndefined \<Rightarrow> Inl TypeError | JNull \<Rightarrow> Inl TypeError | _ \<Rightarrow> to_string E v)"

subsection \<open>The factories\<close>

text \<open>
  The unary mock unwraps a tainted \<open>obj\<close> first and reads the name of the unwrapped value
  afterwards.
\<close>

definition UnaryOperatorMockFactory :: "engine \<Rightarrow> substrate \<Rightarrow> string \<Rightarrow> jsfun" where
  "UnaryOperatorMockFactory E S op =
    (let opFunc = markAsMocked
           \<lparr> fn_call = (\<lambda>args. unary_op E op (arg args 0)), fn_props = Map.empty \<rparr>;
         resultFunc =
           \<lparr> fn_call = (\<lambda>args.
               let obj = arg args 0 in
               if isObjectTainted S obj then
                 (let obj' = getWrappedObject S obj;
                      name = op @ ''('' @ getTaintedName S obj' @ '')''
                  in case fn_call opFunc [obj'] of
                       Inl e \<Rightarrow> Inl e
                     | Inr v \<Rightarrow> Inr (buildProxy S v name))
               else fn_call opFunc [obj]),
             fn_props = Map.empty \<rparr>
     in markAsMocked resultFunc)"

text \<open>
  The binary mock builds the name of each operand before anything else: the tracked name
  of a tainted operand, read before it is unwrapped, and \<open>value(...)\<close> around the
  \<open>toString()\<close> of an operand that is not tainted, also when neither operand is tainted.
  (The source assigns \<open>rightName\<close> without declaring it; the variable it declares is
  \<open>rigthName\<close>. The assignment then makes a global variable, which the next line reads.)
\<close>

definition BinaryOperatorMockFactory :: "engine \<Rightarrow> substrate \<Rightarrow> string \<Rightarrow> jsfun" where
  "BinaryOperatorMockFactory E S op =
    (let opFunc = markAsMocked
           \<lparr> fn_call = (\<lambda>args. binary_op E op (arg args 0) (arg args 1)),
             fn_props = Map.empty \<rparr>;
         resultFunc =
           \<lparr> fn_call = (\<lambda>args.
               let left = arg args 0;
                   right = arg args 1;
                   l = isObjectTainted S left;
                   r = isObjectTainted S right
               in case (if l then Inr (getTaintedName S left, getWrappedObject S left)
                        else (case call_toString E left of
                                Inl e \<Rightarrow> Inl e
                              | Inr s \<Rightarrow> Inr (''value('' @ s @ '')'', left))) of
                    Inl e \<Rightarrow> Inl e
                  | Inr (leftName, left') \<Rightarrow>
               (case (if r then Inr (getTaintedName S right, getWrappedObject S right)
                      else (case call_toString E right of
                              Inl e \<Rightarrow> Inl e
                            | Inr s \<Rightarrow> Inr (''value('' @ s @ '')'', right))) of
                    Inl e \<Rightarrow> Inl e
                  | Inr (rightName, right') \<Rightarrow>
               if l \<or> r then
                 (let name = op @ ''('' @ leftName @ '','' @ rightName @ '')''
                  in case fn_call opFunc [left', right'] of
                       Inl e \<Rightarrow> Inl e
                     | Inr v \<Rightarrow> Inr (buildProxy S v name))
               else fn_call opFunc [left', right'])),
             fn_props = Map.empty \<rparr>
     in markAsMocked resultFunc)"

text \<open>The function mock reads the name of a tainted \<open>obj\<close> before it unwraps it.\<close>

definition FunctionMockFactory :: "engine \<Rightarrow> substrate \<Rightarrow> string \<Rightarrow> jsfun" where
  "FunctionMockFactory E S funcName =
    (let func = markAsMocked
           \<lparr> fn_call = (\<lambda>args. call_global E funcName (arg args 0)), fn_props = Map.empty \<rparr>;
         resultFunc =
           \<lparr> fn_call = (\<lambda>args.
               let obj = arg args 0 in
               if isObjectTainted S obj then
                 (let name = funcName @ ''('' @ getTaintedName S obj @ '')'';
                      obj' = getWrappedObject S obj
                  in case fn_call func [obj'] of
                       Inl e \<Rightarrow> Inl e
                     | Inr v \<Rightarrow> Inr (buildProxy S v name))
               else fn_call func [obj]),
             fn_props = Map.empty \<rparr>
     in markAsMocked resultFunc)"

text \<open>
  The equality mock marks \<open>opFunc\<close> and returns \<open>resultFunc\<close> as it is built.
\<close>

definition EqualityOperatorMockFactory :: "engine \<Rightarrow> substrate \<Rightarrow> string \<Rightarrow> jsfun" where
  "EqualityOperatorMockFactory E S op =
    (let opFunc = markAsMocked
           \<lparr> fn_call = (\<lambda>args. binary_op E op (arg args 0) (arg args 1)),
             fn_props = Map.empty \<rparr>;
         resultFunc =
           \<lparr> fn_call = (\<lambda>args.
               let left = arg args 0;
                   right = arg args 1;
                   l = isObjectTainted S left;
                   r = isObjectTainted S right;
                   left' = (if l then getWrappedObject S left else left);
                   right' = (if r then getWrappedObject S right else right)
               in fn_call opFunc [left', right']),
             fn_props = Map.empty \<rparr>
     in resultFunc)"

subsection \<open>Mapping the mocks to an object\<close>

text \<open>
  What \<open>require('replacer')\<close> gives: the properties the replacer module assigns to
  \<open>exports\<close> that are predicates on names. (The two others are \<open>replacers\<close> and
  \<open>replacerNames\<close>.) A property that was never assigned reads as \<open>undefined\<close>.
\<close>

definition replacer_exports :: "(string \<times> (string \<Rightarrow> bool)) list" where
  "replacer_exports =
    [(''isUnaryOperator'', isUnaryOperator),
     (''isBinaryOperator'', isBinaryOperator),
     (''isFunction'', isFunction)]"

definition isEqualityOperator :: "(string \<Rightarrow> bool) option" where
  "isEqualityOperator = map_of replacer_exports ''isEqualityOperator''"

definition mock_predicates :: "(string \<times> (string \<Rightarrow> bool) option) list" where
  "mock_predicates =
    [(''unary'', map_of replacer_exports ''isUnaryOperator''),
     (''binary'', map_of replacer_exports ''isBinaryOperator''),
     (''equality'', isEqualityOperator),
     (''function'', map_of replacer_exports ''isFunction'')]"

definition mock_factories :: "engine \<Rightarrow> substrate \<Rightarrow> (string \<times> (string \<Rightarrow> jsfun)) list" where
  "mock_factories E S =
    [(''unary'', UnaryOperatorMockFactory E S),
     (''binary'', BinaryOperatorMockFactory E S),
     (''equality'', EqualityOperatorMockFactory E S),
     (''function'', FunctionMockFactory E S)]"

text \<open>
  The inner loop: the first type whose predicate holds of the name selects the factory.
  Calling a predicate that is \<open>undefined\<close> raises a TypeError. \<open>Inr None\<close>: the loop
  ended and \<open>factory\<close> is still \<open>undefined\<close>.
\<close>

fun select_factory ::
  "(string \<times> (string \<Rightarrow> bool) option) list \<Rightarrow> (string \<times> (string \<Rightarrow> jsfun)) list \<Rightarrow> string
    \<Rightarrow> err + (string \<Rightarrow> jsfun) option" where
  "select_factory [] factories name = Inr None"
| "select_factory ((type, p) # predicates) factories name =
    (case p of
       None \<Rightarrow> Inl TypeError
     | Some holds \<Rightarrow>
         if holds name then Inr (map_of factories type)
         else select_factory predicates factories name)"

text \<open>
  The outer loop over the names. The result is the exception that ended the loop, if
  any, and the object as the loop left it.
\<close>

fun map_names ::
  "(string \<times> (string \<Rightarrow> bool) option) list \<Rightarrow> (string \<times> (string \<Rightarrow> jsfun)) list
    \<Rightarrow> (string \<times> string) list \<Rightarrow> (string \<Rightarrow> jsfun option)
    \<Rightarrow> err option \<times> (string \<Rightarrow> jsfun option)" where
  "map_names predicates factories [] obj = (None, obj)"
| "map_names predicates factories ((name, replacement) # names) obj =
    (case select_factory predicates factories name of
       Inl e \<Rightarrow> (Some e, obj)
     | Inr None \<Rightarrow> (Some (Thrown (''Unknown type in mocks.mapMocksToObject'' @ name)), obj)
     | Inr (Some factory) \<Rightarrow>
         map_names predicates factories names (obj(replacement \<mapsto> factory name)))"

definition mapMocksToObject ::
  "engine \<Rightarrow> substrate \<Rightarrow> (string \<Rightarrow> jsfun option) \<Rightarrow> err option \<times> (string \<Rightarrow> jsfun option)" where
  "mapMocksToObject E S obj = map_names mock_predicates (mock_factories E S) replacerNames obj"

section \<open>Example inputs\<close>

text \<open>The nodes of \<open>!x\<close>, \<open>x++\<close> and \<open>++x\<close>.\<close>

definition not_x :: node where
  "not_x =
    Node ''UnaryExpression'' (Some ''!'') (Some True) (Some (identifier_node ''x''))
      None None None None None"

definition x_postfix_increment :: node where
  "x_postfix_increment =
    Node ''UpdateExpression'' (Some ''++'') (Some False) (Some (identifier_node ''x''))
      None None None None None"

definition x_prefix_increment :: node where
  "x_prefix_increment =
    Node ''UpdateExpression'' (Some ''++'') (Some True) (Some (identifier_node ''x''))
      None None None None None"

section \<open>Properties of the replacers\<close>

lemma push_names_Some:
  "push_names (Some f) names rs = Inr (rs @ map (\<lambda>(name, repl). f name repl) names)"
  by (induction names arbitrary: rs) auto

lemma createAllReplacers_ok:
  "createAllReplacers =
    Inr (map (\<lambda>(op, nm). UnaryOperatorReplacerFactory op nm) unaryOperatorNames
         @ map (\<lambda>(op, nm). BinaryOperatorReplacerFactory op nm) binaryOperatorNames
         @ map (\<lambda>(f, nm). FunctionReplacerFactory f nm) functionNames)"
  by (simp add: createAllReplacers_def replacer_nameTypes_def replacer_factories_def
      push_names_Some)

lemma replacers_eq:
  "replacers =
    map (\<lambda>(op, nm). UnaryOperatorReplacerFactory op nm) unaryOperatorNames
    @ map (\<lambda>(op, nm). BinaryOperatorReplacerFactory op nm) binaryOperatorNames
    @ map (\<lambda>(f, nm). FunctionReplacerFactory f nm) functionNames"
  by (simp add: replacers_def createAllReplacers_ok)

lemma length_replacers: "length replacers = 26"
  by (simp add: replacers_eq unaryOperatorNames_def binaryOperatorNames_def functionNames_def)

lemma node_fields [simp]:
  "n_type (set_type t n) = t"
  "n_type (set_callee c n) = n_type n"
  "n_type (set_arguments as n) = n_type n"
  "n_callee (set_type t n) = n_callee n"
  "n_callee (set_callee c n) = Some c"
  "n_callee (set_arguments as n) = n_callee n"
  "n_operator (set_type t n) = n_operator n"
  "n_name (set_name nm n) = Some nm"
  by (cases n; simp)+

lemma predicate_eq:
  "predicate (UnaryOperatorReplacerFactory op nm) node =
     Inr ((n_type node = ''UnaryExpression'' \<or> n_type node = ''UpdateExpression'')
          \<and> n_operator node = Some op)"
  "predicate (BinaryOperatorReplacerFactory op nm) node =
     Inr ((n_type node = ''BinaryExpression'' \<or> n_type node = ''LogicalExpression'')
          \<and> n_operator node = Some op)"
  "predicate (FunctionReplacerFactory f nm) node =
     (if n_type node = ''CallExpression''
      then (case n_callee node of None \<Rightarrow> Inl TypeError | Some c \<Rightarrow> Inr (n_name c = Some f))
      else Inr False)"
  by (simp_all add: UnaryOperatorReplacerFactory_def BinaryOperatorReplacerFactory_def
      FunctionReplacerFactory_def Syntax_UnaryExpression_def Syntax_UpdateExpression_def
      Syntax_BinaryExpression_def Syntax_LogicalExpression_def Syntax_CallExpression_def)

text \<open>
  C7. The predicate of the replacer built for a unary operator \<open>op\<close> matches a node
  exactly when the node's type is UnaryExpression or UpdateExpression and its operator
  is \<open>op\<close>; the type is tested before the operator. It matches no node of type
  BinaryExpression or LogicalExpression, whatever the operator of the node: the second
  \<open>return\<close> of the predicate is dead code.
\<close>

theorem unary_predicate_matches:
  "predicate (UnaryOperatorReplacerFactory op nm) node =
     Inr ((n_type node = ''UnaryExpression'' \<or> n_type node = ''UpdateExpression'')
          \<and> n_operator node = Some op)
   \<and> predicate (UnaryOperatorReplacerFactory op nm) (set_type ''BinaryExpression'' node) = Inr False
   \<and> predicate (UnaryOperatorReplacerFactory op nm) (set_type ''LogicalExpression'' node) = Inr False"
  by (cases node)
    (simp add: UnaryOperatorReplacerFactory_def Syntax_UnaryExpression_def
      Syntax_UpdateExpression_def)

subsection \<open>Every replacer is built by a factory from a row of a table\<close>

lemma replacers_cases:
  "r \<in> set replacers \<Longrightarrow>
    (\<exists>op nm. r = UnaryOperatorReplacerFactory op nm \<and> nm \<noteq> ''eval'')
    \<or> (\<exists>op nm. r = BinaryOperatorReplacerFactory op nm \<and> nm \<noteq> ''eval'')
    \<or> r = FunctionReplacerFactory ''eval'' ''__eval__''"
  unfolding replacers_eq unaryOperatorNames_def binaryOperatorNames_def functionNames_def
  by auto

text \<open>
  What a replacer makes of a node it matches is a call whose callee has a name, and the
  name is not \<open>eval\<close>.
\<close>

lemma produced_shape:
  assumes "r \<in> set replacers" and "predicate r n = Inr True"
  shows "\<exists>n' c nm. replace r n = Inr n' \<and> n_type n' = Syntax_CallExpression
           \<and> n_callee n' = Some c \<and> n_name c = Some nm \<and> nm \<noteq> ''eval''"
  using replacers_cases [OF assms(1)] assms(2)
  by (auto simp: UnaryOperatorReplacerFactory_def BinaryOperatorReplacerFactory_def
      FunctionReplacerFactory_def identifier_node_def Let_def split: if_splits option.splits)

lemma no_match_call:
  assumes "r \<in> set replacers" and "n_type n = Syntax_CallExpression"
    and "n_callee n = Some c" and "n_name c \<noteq> Some ''eval''"
  shows "predicate r n = Inr False"
  using replacers_cases [OF assms(1)] assms(2-4)
  by (auto simp: UnaryOperatorReplacerFactory_def BinaryOperatorReplacerFactory_def
      FunctionReplacerFactory_def Syntax_CallExpression_def Syntax_UnaryExpression_def
      Syntax_UpdateExpression_def Syntax_BinaryExpression_def Syntax_LogicalExpression_def)

lemma apply_rules_no_match:
  "(\<forall>r \<in> set rs. predicate r n = Inr False) \<Longrightarrow> apply_rules rs n = Inr n"
  by (induction rs) auto

text \<open>
  C6. Rewriting is stable. When the predicate of a replacer \<open>r1\<close> of the rule set matches
  a node, \<open>replace\<close> returns a node that no predicate of the rule set matches, the
  predicate of \<open>r1\<close> included; applying the rule set to that node leaves it as it is.
\<close>

theorem rewrite_stable:
  assumes "r1 \<in> set replacers" and "predicate r1 node = Inr True"
  shows "\<exists>node'. replace r1 node = Inr node'
           \<and> (\<forall>r2 \<in> set replacers. predicate r2 node' = Inr False)
           \<and> apply_rules replacers node' = Inr node'"
proof -
  from produced_shape [OF assms] obtain n' c nm where
    n': "replace r1 node = Inr n'" "n_type n' = Syntax_CallExpression"
        "n_callee n' = Some c" "n_name c = Some nm" "nm \<noteq> ''eval''"
    by blast
  have "\<forall>r2 \<in> set replacers. predicate r2 n' = Inr False"
    using n' by (auto intro: no_match_call)
  with n'(1) apply_rules_no_match show ?thesis by blast
qed

theorem rewrite_stable_witness:
  "UnaryOperatorReplacerFactory ''!'' ''__logical_not__'' \<in> set replacers
   \<and> predicate (UnaryOperatorReplacerFactory ''!'' ''__logical_not__'') not_x = Inr True
   \<and> (\<exists>node'. replace (UnaryOperatorReplacerFactory ''!'' ''__logical_not__'') not_x = Inr node'
           \<and> (\<forall>r2 \<in> set replacers. predicate r2 node' = Inr False)
           \<and> apply_rules replacers node' = Inr node')"
proof -
  have m: "UnaryOperatorReplacerFactory ''!'' ''__logical_not__'' \<in> set replacers"
    by (simp add: replacers_eq unaryOperatorNames_def)
  have p: "predicate (UnaryOperatorReplacerFactory ''!'' ''__logical_not__'') not_x = Inr True"
    by (simp add: UnaryOperatorReplacerFactory_def not_x_def Syntax_UnaryExpression_def)
  from rewrite_stable [OF m p] m p show ?thesis by simp
qed

subsection \<open>One replacer for the nodes of every symbol\<close>

lemma filter_key_absent:
  "k \<notin> fst ` set tbl \<Longrightarrow> filter (\<lambda>p. fst p = k) tbl = []"
  by (induction tbl) auto

lemma filter_key:
  "distinct (map fst tbl) \<Longrightarrow> (k, v) \<in> set tbl \<Longrightarrow> filter (\<lambda>p. fst p = k) tbl = [(k, v)]"
  by (induction tbl) (auto simp: filter_key_absent)

lemma filter_none: "(\<And>x. x \<in> set xs \<Longrightarrow> \<not> P x) \<Longrightarrow> filter P xs = []"
  by (induction xs) auto

lemma distinct_tables:
  "distinct (map fst unaryOperatorNames)"
  "distinct (map fst binaryOperatorNames)"
  "distinct (map fst functionNames)"
  by (simp_all add: unaryOperatorNames_def binaryOperatorNames_def functionNames_def)

lemma one_rule_unary:
  assumes "(op, nm) \<in> set unaryOperatorNames"
    and "n_type node = ''UnaryExpression'' \<or> n_type node = ''UpdateExpression''"
    and "n_operator node = Some op"
  shows "matching_rules node = [UnaryOperatorReplacerFactory op nm]"
proof -
  have u: "filter (\<lambda>r. predicate r node = Inr True)
             (map (\<lambda>(op, nm). UnaryOperatorReplacerFactory op nm) unaryOperatorNames)
           = map (\<lambda>(op, nm). UnaryOperatorReplacerFactory op nm)
               (filter (\<lambda>p. fst p = op) unaryOperatorNames)"
    using assms(2,3)
    by (auto simp: filter_map o_def predicate_eq case_prod_beta
        intro!: arg_cong2 [where f = map] filter_cong)
  have b: "filter (\<lambda>r. predicate r node = Inr True)
             (map (\<lambda>(op, nm). BinaryOperatorReplacerFactory op nm) binaryOperatorNames) = []"
    using assms(2) by (intro filter_none) (auto simp: predicate_eq)
  have f: "filter (\<lambda>r. predicate r node = Inr True)
             (map (\<lambda>(f, nm). FunctionReplacerFactory f nm) functionNames) = []"
    using assms(2) by (intro filter_none) (auto simp: predicate_eq)
  show ?thesis
    unfolding matching_rules_def replacers_eq filter_append u b f
    by (simp add: filter_key [OF distinct_tables(1) assms(1)])
qed

lemma one_rule_binary:
  assumes "(op, nm) \<in> set binaryOperatorNames"
    and "n_type node = ''BinaryExpression'' \<or> n_type node = ''LogicalExpression''"
    and "n_operator node = Some op"
  shows "matching_rules node = [BinaryOperatorReplacerFactory op nm]"
proof -
  have u: "filter (\<lambda>r. predicate r node = Inr True)
             (map (\<lambda>(op, nm). UnaryOperatorReplacerFactory op nm) unaryOperatorNames) = []"
    using assms(2) by (intro filter_none) (auto simp: predicate_eq)
  have b: "filter (\<lambda>r. predicate r node = Inr True)
             (map (\<lambda>(op, nm). BinaryOperatorReplacerFactory op nm) binaryOperatorNames)
           = map (\<lambda>(op, nm). BinaryOperatorReplacerFactory op nm)
               (filter (\<lambda>p. fst p = op) binaryOperatorNames)"
    using assms(2,3)
    by (auto simp: filter_map o_def predicate_eq case_prod_beta
        intro!: arg_cong2 [where f = map] filter_cong)
  have f: "filter (\<lambda>r. predicate r node = Inr True)
             (map (\<lambda>(f, nm). FunctionReplacerFactory f nm) functionNames) = []"
    using assms(2) by (intro filter_none) (auto simp: predicate_eq)
  show ?thesis
    unfolding matching_rules_def replacers_eq filter_append u b f
    by (simp add: filter_key [OF distinct_tables(2) assms(1)])
qed

lemma one_rule_function:
  assumes "(f, nm) \<in> set functionNames"
    and "n_type node = ''CallExpression''" and "n_callee node = Some c" and "n_name c = Some f"
  shows "matching_rules node = [FunctionReplacerFactory f nm]"
proof -
  have u: "filter (\<lambda>r. predicate r node = Inr True)
             (map (\<lambda>(op, nm). UnaryOperatorReplacerFactory op nm) unaryOperatorNames) = []"
    using assms(2) by (intro filter_none) (auto simp: predicate_eq)
  have b: "filter (\<lambda>r. predicate r node = Inr True)
             (map (\<lambda>(op, nm). BinaryOperatorReplacerFactory op nm) binaryOperatorNames) = []"
    using assms(2) by (intro filter_none) (auto simp: predicate_eq)
  show ?thesis
    unfolding matching_rules_def replacers_eq filter_append u b
    using assms by (simp add: functionNames_def predicate_eq)
qed

section \<open>Properties of the mocks\<close>

subsection \<open>What a call of a mock computes\<close>

lemma arg_simps [simp]:
  "arg [] i = JUndefined"
  "arg (x # xs) 0 = x"
  "arg (x # xs) (Suc i) = arg xs i"
  by (simp_all add: arg_def)

lemma spec_substrate_simps [simp]:
  "isObjectTainted spec_substrate (JWrapped v n) = True"
  "isObjectTainted spec_substrate JNull = False"
  "isObjectTainted spec_substrate JUndefined = False"
  "isObjectTainted spec_substrate (JNum i) = False"
  "isObjectTainted spec_substrate (JBool b) = False"
  "isObjectTainted spec_substrate (JStr s) = False"
  "getWrappedObject spec_substrate (JWrapped v n) = v"
  "getTaintedName spec_substrate (JWrapped v n) = n"
  "getTaintedName spec_substrate (JBool b) = ''undefined''"
  "getTaintedName spec_substrate (JNum i) = ''undefined''"
  "buildProxy spec_substrate = JWrapped"
  by (simp_all add: spec_substrate_def)

lemma js_engine_simps [simp]:
  "unary_op js_engine = js_unary"
  "binary_op js_engine = js_binary"
  "call_global js_engine = js_call"
  "to_string js_engine = js_to_string"
  by (simp_all add: js_engine_def)

lemma show_int_2: "show_int 2 = ''2''"
  by (simp add: show_int_def digit_char_def)

text \<open>
  The unary mock, for any engine and any substrate: the name of a tainted argument is
  read from the unwrapped value.
\<close>

lemma unary_mock_call:
  "fn_call (UnaryOperatorMockFactory E S op) [a] =
    (if isObjectTainted S a
     then (case unary_op E op (getWrappedObject S a) of
             Inl e \<Rightarrow> Inl e
           | Inr v \<Rightarrow>
               Inr (buildProxy S v (op @ ''('' @ getTaintedName S (getWrappedObject S a) @ '')'')))
     else unary_op E op a)"
  by (simp add: UnaryOperatorMockFactory_def markAsMocked_def Let_def split: sum.split)

text \<open>The function mock reads the name from the tainted argument itself.\<close>

lemma function_mock_call:
  "fn_call (FunctionMockFactory E S f) [a] =
    (if isObjectTainted S a
     then (case call_global E f (getWrappedObject S a) of
             Inl e \<Rightarrow> Inl e
           | Inr v \<Rightarrow> Inr (buildProxy S v (f @ ''('' @ getTaintedName S a @ '')'')))
     else call_global E f a)"
  by (simp add: FunctionMockFactory_def markAsMocked_def Let_def split: sum.split)

text \<open>
  The function that \<open>EqualityOperatorMockFactory\<close> returns applies the native operator to
  the unwrapped operands and never builds a proxy.
\<close>

lemma equality_mock_call:
  "fn_call (EqualityOperatorMockFactory E S op) [a, b] =
    binary_op E op (if isObjectTainted S a then getWrappedObject S a else a)
      (if isObjectTainted S b then getWrappedObject S b else b)"
  by (simp add: EqualityOperatorMockFactory_def markAsMocked_def Let_def)

text \<open>
  The binary mock on operands none of which is tainted, when \<open>toString()\<close> returns on
  both: the native result.
\<close>

lemma binary_mock_untainted:
  assumes "\<not> isObjectTainted S a" and "\<not> isObjectTainted S b"
    and "call_toString E a = Inr sa" and "call_toString E b = Inr sb"
  shows "fn_call (BinaryOperatorMockFactory E S op) [a, b] = binary_op E op a b"
  using assms by (simp add: BinaryOperatorMockFactory_def markAsMocked_def Let_def)

text \<open>
  The binary mock when one operand is tainted, \<open>toString()\<close> returns on the other one
  and the native operator returns: a proxy of the native result, named with the left
  operand before the right one.
\<close>

lemma binary_mock_left_tainted:
  assumes "isObjectTainted S a" and "\<not> isObjectTainted S b"
    and "call_toString E b = Inr sb"
    and "binary_op E op (getWrappedObject S a) b = Inr v"
  shows "fn_call (BinaryOperatorMockFactory E S op) [a, b] =
    Inr (buildProxy S v
          (op @ ''('' @ getTaintedName S a @ '','' @ ''value('' @ sb @ '')'' @ '')''))"
  using assms by (simp add: BinaryOperatorMockFactory_def markAsMocked_def Let_def)

lemma binary_mock_right_tainted:
  assumes "\<not> isObjectTainted S a" and "isObjectTainted S b"
    and "call_toString E a = Inr sa"
    and "binary_op E op a (getWrappedObject S b) = Inr v"
  shows "fn_call (BinaryOperatorMockFactory E S op) [a, b] =
    Inr (buildProxy S v
          (op @ ''('' @ ''value('' @ sa @ '')'' @ '','' @ getTaintedName S b @ '')''))"
  using assms by (simp add: BinaryOperatorMockFactory_def markAsMocked_def Let_def)

lemma binary_mock_plus_src_2:
  "fn_call (BinaryOperatorMockFactory js_engine spec_substrate ''+'')
      [JWrapped (JNum 1) ''src'', JNum 2]
    = Inr (JWrapped (JNum 3) ''+(src,value(2))'')"
  by (simp add: BinaryOperatorMockFactory_def markAsMocked_def Let_def call_toString_def
      show_int_2)

text \<open>
  An operand that is \<open>undefined\<close> or \<open>null\<close> and not tainted: \<open>toString()\<close> raises, for
  any engine and any substrate, whatever the other operand is.
\<close>

lemma binary_mock_no_string_form_left:
  assumes "\<not> isObjectTainted S a" and "a = JNull \<or> a = JUndefined"
  shows "fn_call (BinaryOperatorMockFactory E S op) [a, b] = Inl TypeError"
  using assms
  by (auto simp: BinaryOperatorMockFactory_def markAsMocked_def Let_def call_toString_def)

lemma binary_mock_no_string_form_right:
  assumes "isObjectTainted S a" and "\<not> isObjectTainted S b" and "b = JNull \<or> b = JUndefined"
  shows "fn_call (BinaryOperatorMockFactory E S op) [a, b] = Inl TypeError"
  using assms
  by (auto simp: BinaryOperatorMockFactory_def markAsMocked_def Let_def call_toString_def)

subsection \<open>The marker\<close>

text \<open>
  C8. The functions that the unary, the binary and the function factory return carry
  the marker: \<open>isMarkedAsMocked\<close> is true of them. The function that the equality factory
  returns does not: the factory marks \<open>opFunc\<close> only, and \<open>isMarkedAsMocked\<close> is false of
  what it returns.
\<close>

theorem equality_mock_not_marked:
  "isMarkedAsMocked (UnaryOperatorMockFactory E S op)
   \<and> isMarkedAsMocked (BinaryOperatorMockFactory E S op)
   \<and> isMarkedAsMocked (FunctionMockFactory E S op)
   \<and> \<not> isMarkedAsMocked (EqualityOperatorMockFactory E S op)"
  by (simp add: isMarkedAsMocked_def markAsMocked_def UnaryOperatorMockFactory_def
      BinaryOperatorMockFactory_def FunctionMockFactory_def EqualityOperatorMockFactory_def
      Let_def)

subsection \<open>The unary mock on a tainted value\<close>

text \<open>
  C4. The logical-not mock on a tainted value with provenance \<open>base\<close> and raw value
  \<open>true\<close> returns a tainted \<open>false\<close> whose provenance is the operator around the name of
  the raw value \<open>true\<close>, which has none, and not around \<open>base\<close>: the mock unwraps its
  argument before it reads the name. The function mock, which reads the name first,
  returns the provenance \<open>eval(base)\<close> for the same argument.
\<close>

theorem unary_mock_names_unwrapped_value:
  "fn_call (UnaryOperatorMockFactory js_engine spec_substrate ''!'')
      [JWrapped (JBool True) ''base'']
     = Inr (JWrapped (JBool False) ''!(undefined)'')
   \<and> fn_call (FunctionMockFactory js_engine spec_substrate ''eval'')
      [JWrapped (JBool True) ''base'']
     = Inr (JWrapped (JBool True) ''eval(base)'')"
  by (simp add: unary_mock_call function_mock_call)

subsection \<open>The binary mock on operands without a string form\<close>

text \<open>
  C3. The binary mock on operands that are not tainted raises a TypeError when the left
  operand is \<open>null\<close> or \<open>undefined\<close>, for every operator, every engine and every right
  operand, and when the right operand is \<open>null\<close>; the native \<open>+\<close> returns \<open>1\<close> for
  \<open>null + 1\<close> and for \<open>1 + null\<close>.
\<close>

theorem binary_mock_raises_on_null_operand:
  "fn_call (BinaryOperatorMockFactory E spec_substrate op) [JNull, b] = Inl TypeError
   \<and> fn_call (BinaryOperatorMockFactory E spec_substrate op) [JUndefined, b] = Inl TypeError
   \<and> fn_call (BinaryOperatorMockFactory js_engine spec_substrate ''+'') [JNum 1, JNull]
       = Inl TypeError
   \<and> binary_op js_engine ''+'' JNull (JNum 1) = Inr (JNum 1)
   \<and> binary_op js_engine ''+'' (JNum 1) JNull = Inr (JNum 1)"
  by (simp add: binary_mock_no_string_form_left)
    (simp add: BinaryOperatorMockFactory_def markAsMocked_def Let_def call_toString_def)

text \<open>
  C5. The binary mock on a tainted operand with provenance \<open>src\<close> and an operand that is
  \<open>null\<close> or \<open>undefined\<close> raises a TypeError, on either side, for every operator and every
  engine: it returns no tainted value. The native \<open>+\<close> returns \<open>1\<close> for \<open>1 + null\<close>.
\<close>

theorem binary_mock_raises_on_null_beside_tainted:
  "fn_call (BinaryOperatorMockFactory E spec_substrate op) [JWrapped v ''src'', JNull]
     = Inl TypeError
   \<and> fn_call (BinaryOperatorMockFactory E spec_substrate op) [JWrapped v ''src'', JUndefined]
     = Inl TypeError
   \<and> fn_call (BinaryOperatorMockFactory E spec_substrate op) [JNull, JWrapped v ''src'']
     = Inl TypeError
   \<and> fn_call (BinaryOperatorMockFactory E spec_substrate op) [JUndefined, JWrapped v ''src'']
     = Inl TypeError
   \<and> binary_op js_engine ''+'' (JNum 1) JNull = Inr (JNum 1)"
  by (simp add: BinaryOperatorMockFactory_def markAsMocked_def Let_def call_toString_def)

subsection \<open>Mapping the mocks\<close>

lemma replacerNames_eq:
  "replacerNames = functionNames @ unaryOperatorNames @ binaryOperatorNames"
  by (simp add: replacerNames_def copyObject_def functionNames_def unaryOperatorNames_def
      binaryOperatorNames_def)

lemma isEqualityOperator_undefined: "isEqualityOperator = None"
  by (simp add: isEqualityOperator_def replacer_exports_def)

lemma mock_predicates_eq:
  "mock_predicates =
    [(''unary'', Some isUnaryOperator), (''binary'', Some isBinaryOperator),
     (''equality'', None), (''function'', Some isFunction)]"
  by (simp add: mock_predicates_def isEqualityOperator_undefined replacer_exports_def)

text \<open>
  The name \<open>eval\<close> is no unary and no binary operator, so the loop calls the third
  predicate, which is \<open>undefined\<close>.
\<close>

lemma select_factory_eval:
  "select_factory mock_predicates factories ''eval'' = Inl TypeError"
  by (simp add: mock_predicates_eq isUnaryOperator_def isBinaryOperator_def has_def
      unaryOperatorNames_def binaryOperatorNames_def)

text \<open>
  The equality operators are keys of \<open>binaryOperatorNames\<close>: the loop selects the binary
  factory for them and never reaches the third predicate, whatever that predicate is.
\<close>

lemma select_factory_equality_operators:
  "op \<in> {''=='', ''==='', ''!='', ''!==''} \<Longrightarrow>
   select_factory
     [(''unary'', Some isUnaryOperator), (''binary'', Some isBinaryOperator),
      (''equality'', eqp), (''function'', Some isFunction)]
     (mock_factories E S) op
   = Inr (Some (BinaryOperatorMockFactory E S))"
  by (auto simp: isUnaryOperator_def isBinaryOperator_def has_def
      unaryOperatorNames_def binaryOperatorNames_def mock_factories_def)

text \<open>
  C2. \<open>mapMocksToObject\<close> does not complete: for every engine, substrate and target object
  it raises a TypeError at the first name, \<open>eval\<close>, when it calls the predicate of the
  type \<open>equality\<close>, which the replacer module does not export; the object is left as it
  was, with no mock installed.
\<close>

theorem mapMocksToObject_raises_TypeError:
  "mapMocksToObject E S obj = (Some TypeError, obj)"
  by (simp add: mapMocksToObject_def replacerNames_eq functionNames_def select_factory_eval)

text \<open>
  C1. After \<open>mapMocksToObject\<close> on an empty object, no function is installed under the
  replacement name of any of the four equality operators. The loop that selects the
  factory selects the binary factory for each of them, and the binary mock of \<open>==\<close> on two
  tainted operands returns a tainted value.
\<close>

theorem equality_operators_get_no_equality_mock:
  "snd (mapMocksToObject E S Map.empty) ''__double_equal__'' = None
   \<and> snd (mapMocksToObject E S Map.empty) ''__triple_equal__'' = None
   \<and> snd (mapMocksToObject E S Map.empty) ''__double_inequal__'' = None
   \<and> snd (mapMocksToObject E S Map.empty) ''__triple_inequal__'' = None
   \<and> select_factory mock_predicates (mock_factories E S) ''==''
       = Inr (Some (BinaryOperatorMockFactory E S))
   \<and> select_factory mock_predicates (mock_factories E S) ''===''
       = Inr (Some (BinaryOperatorMockFactory E S))
   \<and> select_factory mock_predicates (mock_factories E S) ''!=''
       = Inr (Some (BinaryOperatorMockFactory E S))
   \<and> select_factory mock_predicates (mock_factories E S) ''!==''
       = Inr (Some (BinaryOperatorMockFactory E S))
   \<and> fn_call (BinaryOperatorMockFactory js_engine spec_substrate ''=='')
        [JWrapped (JNum 1) ''a'', JWrapped (JNum 1) ''b'']
       = Inr (JWrapped (JBool True) ''==(a,b)'')"
proof -
  have "mapMocksToObject E S Map.empty = (Some TypeError, Map.empty)"
    by (simp add: mapMocksToObject_def replacerNames_eq functionNames_def select_factory_eval)
  then have absent: "snd (mapMocksToObject E S Map.empty) = Map.empty"
    by simp
  have tainted:
    "fn_call (BinaryOperatorMockFactory js_engine spec_substrate ''=='')
        [JWrapped (JNum 1) ''a'', JWrapped (JNum 1) ''b'']
      = Inr (JWrapped (JBool True) ''==(a,b)'')"
    by (simp add: BinaryOperatorMockFactory_def markAsMocked_def Let_def)
  have binary:
    "select_factory mock_predicates (mock_factories E S) op
      = Inr (Some (BinaryOperatorMockFactory E S))"
    if "op \<in> {''=='', ''==='', ''!='', ''!==''}" for op
    unfolding mock_predicates_eq using that by (rule select_factory_equality_operators)
  show ?thesis
    unfolding absent using tainted binary by simp
qed

subsection \<open>Increment\<close>

text \<open>
  C9. The replacer of \<open>++\<close> turns \<open>x++\<close> and \<open>++x\<close> into the same call
  \<open>__increment__(x)\<close> (the two nodes differ in the \<open>prefix\<close> property that is left over).
  The factory selected for \<open>++\<close> is the unary one, and its mock applied to \<open>5\<close> returns
  \<open>6\<close>. The native \<open>x++\<close> on a variable that holds \<open>5\<close> has the value \<open>5\<close> and leaves \<open>6\<close>
  in the variable; the native \<open>++x\<close> has the value \<open>6\<close>.
\<close>

theorem increment_mock_returns_incremented_value:
  "replace (UnaryOperatorReplacerFactory ''++'' ''__increment__'') x_postfix_increment
     = Inr (Node ''CallExpression'' (Some ''++'') (Some False) (Some (identifier_node ''x''))
              None None (Some (identifier_node ''__increment__''))
              (Some [Some (identifier_node ''x'')]) None)
   \<and> replace (UnaryOperatorReplacerFactory ''++'' ''__increment__'') x_prefix_increment
     = Inr (Node ''CallExpression'' (Some ''++'') (Some True) (Some (identifier_node ''x''))
              None None (Some (identifier_node ''__increment__''))
              (Some [Some (identifier_node ''x'')]) None)
   \<and> select_factory mock_predicates (mock_factories js_engine spec_substrate) ''++''
     = Inr (Some (UnaryOperatorMockFactory js_engine spec_substrate))
   \<and> fn_call (UnaryOperatorMockFactory js_engine spec_substrate ''++'') [JNum 5] = Inr (JNum 6)
   \<and> native_update ''++'' False 5 = (5, 6)
   \<and> native_update ''++'' True 5 = (6, 6)"
  by (simp add: UnaryOperatorReplacerFactory_def x_postfix_increment_def x_prefix_increment_def
      Syntax_CallExpression_def Let_def unary_mock_call native_update_def
      mock_predicates_eq mock_factories_def isUnaryOperator_def has_def unaryOperatorNames_def)

end
